theory Spec2Isabelle
  imports Complex_Main
begin

section \<open>Canteen management backend: orders, pricing, status and metrics\<close>

text \<open>
  A shallow embedding of \<^verbatim>\<open>src/main.py\<close> and \<^verbatim>\<open>src/schemas.py\<close>.
  Each handler of \<^verbatim>\<open>main.py\<close> is a function from the database handle to a result
  and the database handle afterwards; an exception is the \<open>Inl\<close> of the result.

  Python's \<^verbatim>\<open>float\<close> is the type parameter \<open>'f\<close>. Its arithmetic, the conversions of
  \<^verbatim>\<open>int()\<close> and \<^verbatim>\<open>float()\<close> on strings and floats, and \<^verbatim>\<open>bson.ObjectId\<close> are
  fields of a record \<open>'f runtime\<close> that every function takes: the theorems hold for
  every runtime, IEEE doubles included, and none of them assumes that float addition is
  associative or exact.
\<close>

subsection \<open>Values, dictionaries and errors\<close>

text \<open>A value of a JSON body or of a stored document.\<close>

datatype 'f pyval =
    VNone
  | VBool bool
  | VInt int
  | VFloat 'f
  | VStr string
  | VList "'f pyval list"
  | VDict "(string \<times> 'f pyval) list"

text \<open>A \<^verbatim>\<open>dict\<close> with string keys, as an association list read by its first binding.\<close>

type_synonym 'f pydict = "(string \<times> 'f pyval) list"

text \<open>\<^verbatim>\<open>str(ObjectId)\<close>: the identifier of a stored document.\<close>

type_synonym oid = string

text \<open>\<^verbatim>\<open>d.get(k, default)\<close> and \<^verbatim>\<open>d.get(k)\<close>, whose default is \<^verbatim>\<open>None\<close>.\<close>

definition get_default :: "'f pydict \<Rightarrow> string \<Rightarrow> 'f pyval \<Rightarrow> 'f pyval" where
  "get_default d k dflt = (case map_of d k of None \<Rightarrow> dflt | Some v \<Rightarrow> v)"

definition get :: "'f pydict \<Rightarrow> string \<Rightarrow> 'f pyval" where
  "get d k = get_default d k VNone"

text \<open>
  The \<^verbatim>\<open>detail\<close> of an \<^verbatim>\<open>HTTPException\<close>. \<open>Menu_item_unavailable mid\<close> is
  \<^verbatim>\<open>f"Menu item {mid} unavailable"\<close>: it carries the value the request gave as
  \<^verbatim>\<open>menu_item_id\<close>.
\<close>

datatype 'f detail =
    Database_not_available
  | Invalid_id
  | Item_not_found
  | Menu_item_unavailable "'f pyval"
  | Invalid_status
  | Order_not_found

text \<open>
  What a handler can raise: an \<^verbatim>\<open>HTTPException\<close> with its status code, pydantic's
  \<^verbatim>\<open>ValidationError\<close> from the constructor of a model, or \<open>BuiltinError\<close>, which
  stands for the \<^verbatim>\<open>TypeError\<close>, \<^verbatim>\<open>ValueError\<close> or \<^verbatim>\<open>OverflowError\<close> of
  \<^verbatim>\<open>int()\<close>, \<^verbatim>\<open>float()\<close> and of the conversion in \<^verbatim>\<open>price * qty\<close>; no handler
  catches the last two kinds.
\<close>

datatype 'f error =
    HTTPException nat "'f detail"
  | ValidationError
  | BuiltinError

subsection \<open>The runtime: floats, conversions, identifiers\<close>

record 'f runtime =
  ObjectId :: "'f pyval \<Rightarrow> oid option"
    \<comment> \<open>\<^verbatim>\<open>bson.ObjectId(x)\<close> for \<open>x\<close> other than \<^verbatim>\<open>None\<close>; \<open>None\<close> when it raises\<close>
  int_of_str :: "string \<Rightarrow> int option"
    \<comment> \<open>\<^verbatim>\<open>int(s)\<close> on a string; \<open>None\<close> when it raises\<close>
  int_of_float :: "'f \<Rightarrow> int option"
    \<comment> \<open>\<^verbatim>\<open>int(x)\<close> on a float; \<open>None\<close> for an infinity or a NaN\<close>
  float_of_str :: "string \<Rightarrow> 'f option"
    \<comment> \<open>\<^verbatim>\<open>float(s)\<close> on a string; \<open>None\<close> when it raises\<close>
  float_of_int :: "int \<Rightarrow> 'f option"
    \<comment> \<open>an \<^verbatim>\<open>int\<close> as a float; \<open>None\<close> when it is too large\<close>
  fadd :: "'f \<Rightarrow> 'f \<Rightarrow> 'f"
  fmul :: "'f \<Rightarrow> 'f \<Rightarrow> 'f"
  round2 :: "'f \<Rightarrow> 'f"
    \<comment> \<open>\<^verbatim>\<open>round(x, 2)\<close>\<close>
  ge0 :: "'f \<Rightarrow> bool"
    \<comment> \<open>\<^verbatim>\<open>x >= 0\<close>, the constraint \<^verbatim>\<open>ge=0\<close>\<close>
  zero_f :: 'f
    \<comment> \<open>the literal \<^verbatim>\<open>0.0\<close>\<close>
  tax_rate :: 'f
    \<comment> \<open>the literal \<^verbatim>\<open>0.05\<close>\<close>
  new_id :: "oid list \<Rightarrow> oid"
    \<comment> \<open>the identifier the store gives a new document, from those in the collection\<close>

text \<open>\<^verbatim>\<open>int(v)\<close> and \<^verbatim>\<open>float(v)\<close>.\<close>

fun py_int :: "'f runtime \<Rightarrow> 'f pyval \<Rightarrow> 'f error + int" where
  "py_int R (VInt n) = Inr n"
| "py_int R (VBool b) = Inr (if b then 1 else 0)"
| "py_int R (VFloat x) = (case int_of_float R x of None \<Rightarrow> Inl BuiltinError | Some n \<Rightarrow> Inr n)"
| "py_int R (VStr s) = (case int_of_str R s of None \<Rightarrow> Inl BuiltinError | Some n \<Rightarrow> Inr n)"
| "py_int R VNone = Inl BuiltinError"
| "py_int R (VList vs) = Inl BuiltinError"
| "py_int R (VDict kvs) = Inl BuiltinError"

fun py_float :: "'f runtime \<Rightarrow> 'f pyval \<Rightarrow> 'f error + 'f" where
  "py_float R (VFloat x) = Inr x"
| "py_float R (VInt n) = (case float_of_int R n of None \<Rightarrow> Inl BuiltinError | Some x \<Rightarrow> Inr x)"
| "py_float R (VBool b) =
     (case float_of_int R (if b then 1 else 0) of None \<Rightarrow> Inl BuiltinError | Some x \<Rightarrow> Inr x)"
| "py_float R (VStr s) = (case float_of_str R s of None \<Rightarrow> Inl BuiltinError | Some x \<Rightarrow> Inr x)"
| "py_float R VNone = Inl BuiltinError"
| "py_float R (VList vs) = Inl BuiltinError"
| "py_float R (VDict kvs) = Inl BuiltinError"

text \<open>
  \<^verbatim>\<open>object_id\<close> of \<^verbatim>\<open>main.py\<close>: every exception of \<^verbatim>\<open>ObjectId\<close> becomes the 400
  \<open>Invalid_id\<close>. \<^verbatim>\<open>ObjectId(None)\<close> does not raise: it generates a new identifier,
  which no stored document has; that result is \<open>Inr None\<close>.
\<close>

definition object_id :: "'f runtime \<Rightarrow> 'f pyval \<Rightarrow> 'f error + oid option" where
  "object_id R id_str =
     (case id_str of
        VNone \<Rightarrow> Inr None
      | _ \<Rightarrow> (case ObjectId R id_str of
                None \<Rightarrow> Inl (HTTPException 400 Invalid_id)
              | Some i \<Rightarrow> Inr (Some i)))"

subsection \<open>The models of \<^verbatim>\<open>schemas.py\<close>\<close>

record 'f menuitem_model =
  name :: string
  category :: string
  price :: 'f
  is_available :: bool
  description :: "string option"

record 'f orderitem =
  menu_item_id :: string
  name :: string
  price :: 'f
  quantity :: int
  line_total :: 'f

record 'f order =
  customer_name :: string
  table_number :: "string option"
  items :: "'f orderitem list"
  subtotal :: 'f
  tax :: 'f
  total :: 'f
  status :: "'f pyval"

text \<open>
  The constructor \<^verbatim>\<open>Orderitem(...)\<close> with its validation: \<^verbatim>\<open>name\<close> must be a string,
  \<^verbatim>\<open>price\<close> and \<^verbatim>\<open>line_total\<close> have \<^verbatim>\<open>ge=0\<close>, \<^verbatim>\<open>quantity\<close> has \<^verbatim>\<open>ge=1\<close>.
  \<^verbatim>\<open>create_order\<close> passes a \<^verbatim>\<open>str\<close>, a \<^verbatim>\<open>float\<close>, an \<^verbatim>\<open>int\<close> and a \<^verbatim>\<open>float\<close> for
  the other fields, so only \<^verbatim>\<open>name\<close> (read from the stored document) can have the
  wrong type.
\<close>

definition Orderitem ::
  "'f runtime \<Rightarrow> string \<Rightarrow> 'f pyval \<Rightarrow> 'f \<Rightarrow> int \<Rightarrow> 'f \<Rightarrow> 'f error + 'f orderitem" where
  "Orderitem R mid nm p q lt =
     (case nm of
        VStr s \<Rightarrow>
          if ge0 R p \<and> 1 \<le> q \<and> ge0 R lt
          then Inr \<lparr>menu_item_id = mid, name = s, price = p, quantity = q, line_total = lt\<rparr>
          else Inl ValidationError
      | _ \<Rightarrow> Inl ValidationError)"

text \<open>
  The constructor \<^verbatim>\<open>Order(...)\<close> as \<^verbatim>\<open>create_order\<close> calls it: \<^verbatim>\<open>subtotal\<close>,
  \<^verbatim>\<open>tax\<close> and \<^verbatim>\<open>total\<close> have \<^verbatim>\<open>ge=0\<close>; \<^verbatim>\<open>customer_name\<close> is any string and
  \<^verbatim>\<open>items\<close> any list; \<^verbatim>\<open>status\<close> takes its default.
\<close>

definition Order ::
  "'f runtime \<Rightarrow> string \<Rightarrow> string option \<Rightarrow> 'f orderitem list \<Rightarrow> 'f \<Rightarrow> 'f \<Rightarrow> 'f
     \<Rightarrow> 'f error + 'f order" where
  "Order R cn tn its st tx tot =
     (if ge0 R st \<and> ge0 R tx \<and> ge0 R tot
      then Inr \<lparr>customer_name = cn, table_number = tn, items = its, subtotal = st,
                tax = tx, total = tot, status = VStr ''pending''\<rparr>
      else Inl ValidationError)"

subsection \<open>The document store\<close>

text \<open>
  The two collections the handlers use, each a list of documents with their \<^verbatim>\<open>_id\<close>.
  A menu item document is a dictionary, since \<^verbatim>\<open>update_menu_item\<close> sets any fields;
  an order document has the fields of \<^verbatim>\<open>Order\<close>. The handle \<^verbatim>\<open>db\<close> of the handlers
  is a \<open>database option\<close>: \<open>None\<close> is Python's \<^verbatim>\<open>db is None\<close>.
\<close>

record 'f database =
  menuitem :: "(oid \<times> 'f pydict) list"
  order :: "(oid \<times> 'f order) list"

text \<open>
  \<^verbatim>\<open>find_one\<close>, \<^verbatim>\<open>update_one\<close>, \<^verbatim>\<open>delete_one\<close> and \<^verbatim>\<open>count_documents\<close> of a
  collection, with the filter as a predicate on documents. \<^verbatim>\<open>update_one\<close> and
  \<^verbatim>\<open>delete_one\<close> act on the first document that matches and return the collection with
  \<^verbatim>\<open>matched_count\<close> or \<^verbatim>\<open>deleted_count\<close>.
\<close>

fun find_one :: "('d \<Rightarrow> bool) \<Rightarrow> 'd list \<Rightarrow> 'd option" where
  "find_one flt [] = None"
| "find_one flt (d # ds) = (if flt d then Some d else find_one flt ds)"

fun update_one :: "('d \<Rightarrow> bool) \<Rightarrow> ('d \<Rightarrow> 'd) \<Rightarrow> 'd list \<Rightarrow> 'd list \<times> nat" where
  "update_one flt upd [] = ([], 0)"
| "update_one flt upd (d # ds) =
     (if flt d then (upd d # ds, 1)
      else (case update_one flt upd ds of (ds', n) \<Rightarrow> (d # ds', n)))"

fun delete_one :: "('d \<Rightarrow> bool) \<Rightarrow> 'd list \<Rightarrow> 'd list \<times> nat" where
  "delete_one flt [] = ([], 0)"
| "delete_one flt (d # ds) =
     (if flt d then (ds, 1)
      else (case delete_one flt ds of (ds', n) \<Rightarrow> (d # ds', n)))"

fun count_documents :: "('d \<Rightarrow> bool) \<Rightarrow> 'd list \<Rightarrow> nat" where
  "count_documents flt [] = 0"
| "count_documents flt (d # ds) = (if flt d then 1 else 0) + count_documents flt ds"

text \<open>The filter \<^verbatim>\<open>{"_id": i}\<close>, where \<open>i\<close> is a result of \<open>object_id\<close>.\<close>

definition has_id :: "oid option \<Rightarrow> oid \<times> 'd \<Rightarrow> bool" where
  "has_id i d = (i = Some (fst d))"

text \<open>The update \<^verbatim>\<open>{"$set": payload}\<close> on a dictionary: every key of the payload is set.\<close>

fun set_field :: "string \<Rightarrow> 'f pyval \<Rightarrow> 'f pydict \<Rightarrow> 'f pydict" where
  "set_field k v [] = [(k, v)]"
| "set_field k v (kv # d) = (if fst kv = k then (k, v) # d else kv # set_field k v d)"

fun set_fields :: "'f pydict \<Rightarrow> 'f pydict \<Rightarrow> 'f pydict" where
  "set_fields [] d = d"
| "set_fields (kv # payload) d = set_fields payload (set_field (fst kv) (snd kv) d)"

text \<open>
  Modelled from the spec: \<^verbatim>\<open>create_document\<close> of the module \<^verbatim>\<open>database\<close>, which is not
  among the sources. The spec gives \<^verbatim>\<open>insert(collection_name, document) -> id\<close>, the
  identifier assigned by the store on creation: the document joins the collection under
  a new identifier, which is returned.
\<close>

definition create_document :: "'f runtime \<Rightarrow> 'd \<Rightarrow> (oid \<times> 'd) list \<Rightarrow> oid \<times> (oid \<times> 'd) list" where
  "create_document R doc coll = (let i = new_id R (map fst coll) in (i, coll @ [(i, doc)]))"

text \<open>The dictionary of a \<^verbatim>\<open>Menuitem\<close>, as it is stored.\<close>

definition menuitem_dict :: "'f menuitem_model \<Rightarrow> 'f pydict" where
  "menuitem_dict m =
     [(''name'', VStr (menuitem_model.name m)),
      (''category'', VStr (category m)),
      (''price'', VFloat (menuitem_model.price m)),
      (''is_available'', VBool (is_available m)),
      (''description'', (case description m of None \<Rightarrow> VNone | Some s \<Rightarrow> VStr s))]"

subsection \<open>Creating an order\<close>

text \<open>The request body \<^verbatim>\<open>CreateOrder\<close>; \<^verbatim>\<open>items\<close> is a list of dictionaries.\<close>

record 'f CreateOrder =
  customer_name :: string
  table_number :: "string option"
  items :: "'f pydict list"

text \<open>The query of \<^verbatim>\<open>create_order\<close>: \<^verbatim>\<open>find_one({"_id": key, "is_available": True})\<close>.\<close>

definition find_available :: "(oid \<times> 'f pydict) list \<Rightarrow> oid option \<Rightarrow> (oid \<times> 'f pydict) option" where
  "find_available menu key =
     find_one (\<lambda>d. has_id key d \<and> map_of (snd d) ''is_available'' = Some (VBool True)) menu"

text \<open>
  One pass through the body of the loop \<^verbatim>\<open>for i in payload.items\<close>, up to the
  \<^verbatim>\<open>Orderitem\<close> it appends. Each statement that can raise is a case, in the order of
  the source: \<^verbatim>\<open>int(...)\<close>, \<^verbatim>\<open>object_id(mid)\<close>, the lookup, \<^verbatim>\<open>float(...)\<close>,
  \<^verbatim>\<open>price * qty\<close> (which converts \<^verbatim>\<open>qty\<close> to a float) and the constructor.
\<close>

definition price_line ::
  "'f runtime \<Rightarrow> (oid \<times> 'f pydict) list \<Rightarrow> 'f pydict \<Rightarrow> 'f error + 'f orderitem" where
  "price_line R menu i =
     (let mid = get i ''menu_item_id'' in
      case py_int R (get_default i ''quantity'' (VInt 1)) of
        Inl e \<Rightarrow> Inl e
      | Inr qty \<Rightarrow>
     (case object_id R mid of
        Inl e \<Rightarrow> Inl e
      | Inr key \<Rightarrow>
     (case find_available menu key of
        None \<Rightarrow> Inl (HTTPException 400 (Menu_item_unavailable mid))
      | Some doc \<Rightarrow>
     (case py_float R (get_default (snd doc) ''price'' (VInt 0)) of
        Inl e \<Rightarrow> Inl e
      | Inr p \<Rightarrow>
     (case float_of_int R qty of
        None \<Rightarrow> Inl BuiltinError
      | Some fq \<Rightarrow>
          Orderitem R (fst doc) (get (snd doc) ''name'') p qty (fmul R p fq))))))"

text \<open>
  The loop, with \<^verbatim>\<open>order_items\<close> and \<^verbatim>\<open>subtotal\<close> as its state: the line is
  appended and its \<^verbatim>\<open>line_total\<close> added to \<^verbatim>\<open>subtotal\<close>. An exception in any pass
  ends the loop.
\<close>

fun price_lines ::
  "'f runtime \<Rightarrow> (oid \<times> 'f pydict) list \<Rightarrow> 'f pydict list \<Rightarrow> 'f orderitem list \<Rightarrow> 'f
     \<Rightarrow> 'f error + ('f orderitem list \<times> 'f)" where
  "price_lines R menu [] order_items sub = Inr (order_items, sub)"
| "price_lines R menu (i # rest) order_items sub =
     (case price_line R menu i of
        Inl e \<Rightarrow> Inl e
      | Inr it \<Rightarrow> price_lines R menu rest (order_items @ [it]) (fadd R sub (line_total it)))"

text \<open>
  \<^verbatim>\<open>create_order\<close>. The result is the returned dictionary or the exception, with the
  database handle afterwards.
\<close>

definition create_order ::
  "'f runtime \<Rightarrow> 'f database option \<Rightarrow> 'f CreateOrder
     \<Rightarrow> ('f error + 'f pydict) \<times> 'f database option" where
  "create_order R db payload =
     (case db of
        None \<Rightarrow> (Inl (HTTPException 500 Database_not_available), db)
      | Some d \<Rightarrow>
     (case price_lines R (menuitem d) (CreateOrder.items payload) [] (zero_f R) of
        Inl e \<Rightarrow> (Inl e, db)
      | Inr (order_items, sub) \<Rightarrow>
     (let tx = round2 R (fmul R sub (tax_rate R));
          tot = round2 R (fadd R sub tx)
      in case Order R (CreateOrder.customer_name payload) (CreateOrder.table_number payload)
                order_items (round2 R sub) tx tot of
        Inl e \<Rightarrow> (Inl e, db)
      | Inr order_doc \<Rightarrow>
     (case create_document R order_doc (order d) of
        (order_id, coll) \<Rightarrow>
          (Inr [(''id'', VStr order_id),
                (''subtotal'', VFloat (subtotal order_doc)),
                (''tax'', VFloat (tax order_doc)),
                (''total'', VFloat (total order_doc))],
           Some (d\<lparr>order := coll\<rparr>))))))"

subsection \<open>The menu\<close>

text \<open>\<^verbatim>\<open>add_menu_item\<close>: the body is a validated \<^verbatim>\<open>Menuitem\<close>.\<close>

definition add_menu_item ::
  "'f runtime \<Rightarrow> 'f database option \<Rightarrow> 'f menuitem_model
     \<Rightarrow> ('f error + 'f pydict) \<times> 'f database option" where
  "add_menu_item R db item =
     (case db of
        None \<Rightarrow> (Inl (HTTPException 500 Database_not_available), db)
      | Some d \<Rightarrow>
     (case create_document R (menuitem_dict item) (menuitem d) of
        (inserted_id, coll) \<Rightarrow> (Inr [(''id'', VStr inserted_id)], Some (d\<lparr>menuitem := coll\<rparr>))))"

text \<open>
  \<^verbatim>\<open>update_menu_item\<close>: \<^verbatim>\<open>object_id(item_id)\<close> is evaluated first, then the first
  document with that \<^verbatim>\<open>_id\<close> has the fields of the payload set.
\<close>

definition update_menu_item ::
  "'f runtime \<Rightarrow> 'f database option \<Rightarrow> string \<Rightarrow> 'f pydict
     \<Rightarrow> ('f error + 'f pydict) \<times> 'f database option" where
  "update_menu_item R db item_id payload =
     (case db of
        None \<Rightarrow> (Inl (HTTPException 500 Database_not_available), db)
      | Some d \<Rightarrow>
     (case object_id R (VStr item_id) of
        Inl e \<Rightarrow> (Inl e, db)
      | Inr key \<Rightarrow>
     (case update_one (has_id key) (\<lambda>doc. (fst doc, set_fields payload (snd doc))) (menuitem d) of
        (coll, matched_count) \<Rightarrow>
          if matched_count = 0
          then (Inl (HTTPException 404 Item_not_found), Some (d\<lparr>menuitem := coll\<rparr>))
          else (Inr [(''updated'', VBool True)], Some (d\<lparr>menuitem := coll\<rparr>)))))"

definition delete_menu_item ::
  "'f runtime \<Rightarrow> 'f database option \<Rightarrow> string
     \<Rightarrow> ('f error + 'f pydict) \<times> 'f database option" where
  "delete_menu_item R db item_id =
     (case db of
        None \<Rightarrow> (Inl (HTTPException 500 Database_not_available), db)
      | Some d \<Rightarrow>
     (case object_id R (VStr item_id) of
        Inl e \<Rightarrow> (Inl e, db)
      | Inr key \<Rightarrow>
     (case delete_one (has_id key) (menuitem d) of
        (coll, deleted_count) \<Rightarrow>
          if deleted_count = 0
          then (Inl (HTTPException 404 Item_not_found), Some (d\<lparr>menuitem := coll\<rparr>))
          else (Inr [(''deleted'', VBool True)], Some (d\<lparr>menuitem := coll\<rparr>)))))"

subsection \<open>Order status and metrics\<close>

text \<open>
  \<^verbatim>\<open>update_order_status\<close>: the status is checked against the list of five strings
  before \<^verbatim>\<open>object_id(order_id)\<close> is evaluated; the update sets the field
  \<^verbatim>\<open>status\<close> of the first order with that \<^verbatim>\<open>_id\<close>.
\<close>

definition statuses :: "'f pyval list" where
  "statuses = [VStr ''pending'', VStr ''preparing'', VStr ''ready'', VStr ''completed'',
               VStr ''cancelled'']"

definition update_order_status ::
  "'f runtime \<Rightarrow> 'f database option \<Rightarrow> string \<Rightarrow> 'f pydict
     \<Rightarrow> ('f error + 'f pydict) \<times> 'f database option" where
  "update_order_status R db order_id payload =
     (case db of
        None \<Rightarrow> (Inl (HTTPException 500 Database_not_available), db)
      | Some d \<Rightarrow>
     (let st = get payload ''status'' in
      if st \<notin> set statuses then (Inl (HTTPException 400 Invalid_status), db)
      else
     (case object_id R (VStr order_id) of
        Inl e \<Rightarrow> (Inl e, db)
      | Inr key \<Rightarrow>
     (case update_one (has_id key) (\<lambda>doc. (fst doc, (snd doc)\<lparr>status := st\<rparr>)) (order d) of
        (coll, matched_count) \<Rightarrow>
          if matched_count = 0
          then (Inl (HTTPException 404 Order_not_found), Some (d\<lparr>order := coll\<rparr>))
          else (Inr [(''updated'', VBool True)], Some (d\<lparr>order := coll\<rparr>))))))"

text \<open>
  \<^verbatim>\<open>metrics\<close>: three calls of \<^verbatim>\<open>count_documents\<close>, with the filters \<^verbatim>\<open>{}\<close>,
  \<^verbatim>\<open>{"status": {"$in": ["pending", "preparing"]}}\<close> and \<^verbatim>\<open>{"status": "completed"}\<close>.
\<close>

definition metrics ::
  "'f database option \<Rightarrow> ('f error + 'f pydict) \<times> 'f database option" where
  "metrics db =
     (case db of
        None \<Rightarrow> (Inl (HTTPException 500 Database_not_available), db)
      | Some d \<Rightarrow>
     (let total_menu = count_documents (\<lambda>doc. True) (menuitem d);
          pending_orders =
            count_documents
              (\<lambda>doc. status (snd doc) \<in> set [VStr ''pending'', VStr ''preparing'']) (order d);
          completed_today =
            count_documents (\<lambda>doc. status (snd doc) = VStr ''completed'') (order d)
      in (Inr [(''total_menu'', VInt (int total_menu)),
               (''active_orders'', VInt (int pending_orders)),
               (''completed_orders'', VInt (int completed_today))],
          db)))"

subsection \<open>Listing\<close>

text \<open>
  Modelled from the spec: \<^verbatim>\<open>get_documents\<close> of the module \<^verbatim>\<open>database\<close>, which is not
  among the sources. The spec gives \<^verbatim>\<open>find_many(collection_name, filter)\<close>, a sequence
  of documents: the documents of the collection, each a dictionary with its \<^verbatim>\<open>_id\<close>.
  \<^verbatim>\<open>list_menu\<close> and \<^verbatim>\<open>list_orders\<close> replace each \<^verbatim>\<open>_id\<close> by its string.
\<close>

definition orderitem_dict :: "'f orderitem \<Rightarrow> 'f pydict" where
  "orderitem_dict it =
     [(''menu_item_id'', VStr (menu_item_id it)),
      (''name'', VStr (orderitem.name it)),
      (''price'', VFloat (orderitem.price it)),
      (''quantity'', VInt (quantity it)),
      (''line_total'', VFloat (line_total it))]"

definition order_dict :: "'f order \<Rightarrow> 'f pydict" where
  "order_dict ord =
     [(''customer_name'', VStr (order.customer_name ord)),
      (''table_number'', (case order.table_number ord of None \<Rightarrow> VNone | Some s \<Rightarrow> VStr s)),
      (''items'', VList (map (\<lambda>it. VDict (orderitem_dict it)) (order.items ord))),
      (''subtotal'', VFloat (subtotal ord)),
      (''tax'', VFloat (tax ord)),
      (''total'', VFloat (total ord)),
      (''status'', status ord)]"

definition list_menu ::
  "'f database option \<Rightarrow> ('f error + 'f pydict) \<times> 'f database option" where
  "list_menu db =
     (case db of
        None \<Rightarrow> (Inl (HTTPException 500 Database_not_available), db)
      | Some d \<Rightarrow>
          (Inr [(''items'', VList (map (\<lambda>it. VDict ((''_id'', VStr (fst it)) # snd it)) (menuitem d)))],
           db))"

definition list_orders ::
  "'f database option \<Rightarrow> ('f error + 'f pydict) \<times> 'f database option" where
  "list_orders db =
     (case db of
        None \<Rightarrow> (Inl (HTTPException 500 Database_not_available), db)
      | Some d \<Rightarrow>
          (Inr [(''orders'',
                 VList (map (\<lambda>ord. VDict ((''_id'', VStr (fst ord)) # order_dict (snd ord))) (order d)))],
           db))"

subsection \<open>The operations as one step\<close>

datatype 'f request =
    AddMenuItem "'f menuitem_model"
  | ListMenu
  | UpdateMenuItem string "'f pydict"
  | DeleteMenuItem string
  | CreateOrderReq "'f CreateOrder"
  | ListOrders
  | UpdateOrderStatus string "'f pydict"
  | Metrics

fun handle ::
  "'f runtime \<Rightarrow> 'f database option \<Rightarrow> 'f request
     \<Rightarrow> ('f error + 'f pydict) \<times> 'f database option" where
  "handle R db (AddMenuItem item) = add_menu_item R db item"
| "handle R db ListMenu = list_menu db"
| "handle R db (UpdateMenuItem item_id payload) = update_menu_item R db item_id payload"
| "handle R db (DeleteMenuItem item_id) = delete_menu_item R db item_id"
| "handle R db (CreateOrderReq payload) = create_order R db payload"
| "handle R db ListOrders = list_orders db"
| "handle R db (UpdateOrderStatus order_id payload) = update_order_status R db order_id payload"
| "handle R db Metrics = metrics db"

subsection \<open>A runtime and a database to run the model on\<close>

text \<open>
  One runtime, with exact decimal arithmetic on the rationals for the floats,
  \<^verbatim>\<open>round(x, 2)\<close> rounding half to even, \<^verbatim>\<open>ObjectId\<close> accepting the strings of 24
  hexadecimal digits, and \<^verbatim>\<open>int()\<close> and \<^verbatim>\<open>float()\<close> reading plain decimal numerals
  from strings. It is used to evaluate the model on concrete requests; the amounts of
  these requests are the same in binary floating point.
\<close>

definition hex_lower :: "char \<Rightarrow> char option" where
  "hex_lower c =
     (if c \<in> set ''0123456789abcdef'' then Some c
      else map_of [(CHR ''A'', CHR ''a''), (CHR ''B'', CHR ''b''), (CHR ''C'', CHR ''c''),
                   (CHR ''D'', CHR ''d''), (CHR ''E'', CHR ''e''), (CHR ''F'', CHR ''f'')] c)"

fun sample_ObjectId :: "rat pyval \<Rightarrow> oid option" where
  "sample_ObjectId (VStr s) =
     (if length s = 24 \<and> list_all (\<lambda>c. hex_lower c \<noteq> None) s
      then Some (map (\<lambda>c. the (hex_lower c)) s) else None)"
| "sample_ObjectId v = None"

definition digit_of :: "char \<Rightarrow> nat option" where
  "digit_of c = map_of (zip ''0123456789'' [0, 1, 2, 3, 4, 5, 6, 7, 8, 9]) c"

fun digits_val :: "string \<Rightarrow> nat \<Rightarrow> nat option" where
  "digits_val [] acc = Some acc"
| "digits_val (c # cs) acc =
     (case digit_of c of None \<Rightarrow> None | Some k \<Rightarrow> digits_val cs (10 * acc + k))"

definition numeral_val :: "string \<Rightarrow> nat option" where
  "numeral_val s = (if s = [] then None else digits_val s 0)"

definition sample_int_of_str :: "string \<Rightarrow> int option" where
  "sample_int_of_str s =
     (case s of
        [] \<Rightarrow> None
      | c # cs \<Rightarrow>
          if c = CHR ''-'' then map_option (\<lambda>n. - int n) (numeral_val cs)
          else if c = CHR ''+'' then map_option int (numeral_val cs)
          else map_option int (numeral_val s))"

definition round_half_even :: "rat \<Rightarrow> int" where
  "round_half_even x =
     (let n = \<lfloor>x\<rfloor>; r = x - of_int n
      in if r < 1 / 2 then n else if 1 / 2 < r then n + 1 else if even n then n else n + 1)"

definition hex24 :: "nat \<Rightarrow> oid" where
  "hex24 n = map (\<lambda>k. ''0123456789abcdef'' ! ((n div 16 ^ k) mod 16)) (rev [0..<24])"

definition sample_new_id :: "oid list \<Rightarrow> oid" where
  "sample_new_id ids =
     (case find (\<lambda>n. hex24 n \<notin> set ids) [0..<Suc (length ids)] of
        None \<Rightarrow> hex24 (length ids)
      | Some n \<Rightarrow> hex24 n)"

definition sample_runtime :: "rat runtime" where
  "sample_runtime =
     \<lparr>ObjectId = sample_ObjectId,
      int_of_str = sample_int_of_str,
      int_of_float = (\<lambda>x. Some (if 0 \<le> x then \<lfloor>x\<rfloor> else \<lceil>x\<rceil>)),
      float_of_str = (\<lambda>s. map_option of_int (sample_int_of_str s)),
      float_of_int = (\<lambda>n. Some (of_int n)),
      fadd = (+),
      fmul = (*),
      round2 = (\<lambda>x. of_int (round_half_even (x * 100)) / 100),
      ge0 = (\<lambda>x. 0 \<le> x),
      zero_f = 0,
      tax_rate = 1 / 20,
      new_id = sample_new_id\<rparr>"

text \<open>
  A menu with item A (10.00, available), item B (5.00, not available) and item C
  (available, stored without a price), and one order for two of item A.
\<close>

definition id_A :: oid where "id_A = ''aaaaaaaaaaaaaaaaaaaaaaaa''"

definition id_B :: oid where "id_B = ''bbbbbbbbbbbbbbbbbbbbbbbb''"

definition id_C :: oid where "id_C = ''cccccccccccccccccccccccc''"

definition id_order :: oid where "id_order = ''000000000000000000000000''"

definition sample_menu :: "(oid \<times> rat pydict) list" where
  "sample_menu =
     [(id_A, [(''name'', VStr ''Tea''), (''category'', VStr ''Beverages''),
              (''price'', VFloat 10), (''is_available'', VBool True), (''description'', VNone)]),
      (id_B, [(''name'', VStr ''Samosa''), (''category'', VStr ''Snacks''),
              (''price'', VFloat 5), (''is_available'', VBool False), (''description'', VNone)]),
      (id_C, [(''name'', VStr ''Water''), (''is_available'', VBool True)])]"

definition sample_order :: "rat order" where
  "sample_order =
     \<lparr>order.customer_name = ''Asha'', order.table_number = None,
      order.items =
        [\<lparr>menu_item_id = id_A, name = ''Tea'', price = 10, quantity = 2, line_total = 20\<rparr>],
      subtotal = 20, tax = 1, total = 21, status = VStr ''pending''\<rparr>"

definition empty_db :: "rat database" where
  "empty_db = \<lparr>menuitem = sample_menu, order = []\<rparr>"

definition sample_db :: "rat database" where
  "sample_db = \<lparr>menuitem = sample_menu, order = [(id_order, sample_order)]\<rparr>"

text \<open>The request of two of item A, on the database with no order yet.\<close>

definition two_teas :: "rat CreateOrder" where
  "two_teas =
     \<lparr>customer_name = ''Asha'', table_number = None,
      items = [[(''menu_item_id'', VStr id_A), (''quantity'', VInt 2)]]\<rparr>"



definition no_items :: "rat CreateOrder" where
  "no_items = \<lparr>customer_name = ''Asha'', table_number = None, items = []\<rparr>"

definition two_teas_no_name :: "rat CreateOrder" where
  "two_teas_no_name = two_teas\<lparr>customer_name := []\<rparr>"







text \<open>The request for two of item A and three of item C, which has no stored price.\<close>

definition tea_and_water :: "rat CreateOrder" where
  "tea_and_water =
     \<lparr>customer_name = ''Asha'', table_number = None,
      items = [[(''menu_item_id'', VStr id_A), (''quantity'', VInt 2)],
               [(''menu_item_id'', VStr id_C), (''quantity'', VInt 3)]]\<rparr>"

text \<open>
  What must stay as it was created in a stored order: its identifier, items, subtotal,
  tax and total.
\<close>

definition priced_part :: "oid \<times> 'f order \<Rightarrow> oid \<times> 'f orderitem list \<times> 'f \<times> 'f \<times> 'f" where
  "priced_part doc =
     (fst doc, order.items (snd doc), subtotal (snd doc), tax (snd doc), total (snd doc))"

text \<open>The database after the price of item A is set to 12.00.\<close>

definition repriced_db :: "rat database" where
  "repriced_db =
     \<lparr>menuitem =
        [(id_A, [(''name'', VStr ''Tea''), (''category'', VStr ''Beverages''),
                 (''price'', VFloat 12), (''is_available'', VBool True), (''description'', VNone)]),
         (id_B, [(''name'', VStr ''Samosa''), (''category'', VStr ''Snacks''),
                 (''price'', VFloat 5), (''is_available'', VBool False), (''description'', VNone)]),
         (id_C, [(''name'', VStr ''Water''), (''is_available'', VBool True)])],
      order = [(id_order, sample_order)]\<rparr>"

section \<open>Properties\<close>

subsection \<open>The pricing loop\<close>

lemma price_lines_append:
  "price_lines R menu (xs @ ys) its s =
     (case price_lines R menu xs its s of
        Inl e \<Rightarrow> Inl e
      | Inr r \<Rightarrow> price_lines R menu ys (fst r) (snd r))"
  by (induction xs arbitrary: its s) (auto split: sum.splits)

lemma price_lines_Inr:
  "price_lines R menu ls its s = Inr (its', s') \<Longrightarrow>
     \<exists>new. its' = its @ new \<and> map Inr new = map (price_line R menu) ls \<and>
           s' = foldl (fadd R) s (map line_total new)"
proof (induction ls arbitrary: its s)
  case Nil
  then show ?case by simp
next
  case (Cons i rest)
  from Cons.prems obtain it where it: "price_line R menu i = Inr it"
    and rest: "price_lines R menu rest (its @ [it]) (fadd R s (line_total it)) = Inr (its', s')"
    by (auto split: sum.splits)
  from Cons.IH[OF rest] obtain new where new: "its' = (its @ [it]) @ new"
    "map Inr new = map (price_line R menu) rest"
    "s' = foldl (fadd R) (fadd R s (line_total it)) (map line_total new)"
    by blast
  show ?case
    by (rule exI[of _ "it # new"]) (simp add: new it)
qed


lemma create_order_Inr:
  assumes "create_order R (Some d) payload = (Inr resp, db')"
  shows "\<exists>its sub od.
      price_lines R (menuitem d) (CreateOrder.items payload) [] (zero_f R) = Inr (its, sub) \<and>
      Order R (CreateOrder.customer_name payload) (CreateOrder.table_number payload) its
        (round2 R sub) (round2 R (fmul R sub (tax_rate R)))
        (round2 R (fadd R sub (round2 R (fmul R sub (tax_rate R))))) = Inr od \<and>
      db' = Some (d\<lparr>order := order d @ [(new_id R (map fst (order d)), od)]\<rparr>) \<and>
      resp = [(''id'', VStr (new_id R (map fst (order d)))),
              (''subtotal'', VFloat (subtotal od)),
              (''tax'', VFloat (tax od)),
              (''total'', VFloat (total od))]"
  using assms
  by (auto simp: create_order_def create_document_def Let_def split: sum.splits prod.splits)

lemma Order_Inr:
  "Order R cn tn its st tx tot = Inr od \<Longrightarrow>
     od = \<lparr>order.customer_name = cn, order.table_number = tn, order.items = its,
           subtotal = st, tax = tx, total = tot, status = VStr ''pending''\<rparr>"
  by (auto simp: Order_def split: if_splits)

subsection \<open>Evaluating the model\<close>

lemmas sample_simps =
  create_order_def price_line_def find_available_def sample_runtime_def empty_db_def
  sample_db_def sample_menu_def sample_order_def id_A_def id_B_def id_C_def id_order_def
  get_def get_default_def object_id_def has_id_def hex_lower_def Orderitem_def Order_def
  round_half_even_def create_document_def sample_new_id_def hex24_def upt_conv_Cons Let_def

lemma run_two_teas:
  "create_order sample_runtime (Some empty_db) two_teas =
   (Inr [(''id'', VStr id_order), (''subtotal'', VFloat 20), (''tax'', VFloat 1),
         (''total'', VFloat 21)],
    Some sample_db)"
  by (simp add: sample_simps two_teas_def)

subsection \<open>Amounts of a created order\<close>



subsection \<open>The store\<close>

lemma update_one_no_match:
  "\<forall>x\<in>set ds. \<not> flt x \<Longrightarrow> update_one flt upd ds = (ds, 0)"
  by (induction ds) auto

lemma update_one_match:
  "\<exists>x\<in>set ds. flt x \<Longrightarrow>
     \<exists>pre x post. ds = pre @ x # post \<and> (\<forall>y\<in>set pre. \<not> flt y) \<and> flt x \<and>
        update_one flt upd ds = (pre @ upd x # post, 1)"
proof (induction ds)
  case Nil
  then show ?case by simp
next
  case (Cons a ds)
  show ?case
  proof (cases "flt a")
    case True
    then have "a # ds = [] @ a # ds \<and> (\<forall>y\<in>set []. \<not> flt y) \<and> flt a \<and>
        update_one flt upd (a # ds) = ([] @ upd a # ds, 1)"
      by simp
    then show ?thesis by blast
  next
    case False
    with Cons.prems have "\<exists>x\<in>set ds. flt x" by auto
    from Cons.IH[OF this] obtain pre x post where
      *: "ds = pre @ x # post" "\<forall>y\<in>set pre. \<not> flt y" "flt x"
         "update_one flt upd ds = (pre @ upd x # post, 1)"
      by blast
    from * False have "a # ds = (a # pre) @ x # post \<and> (\<forall>y\<in>set (a # pre). \<not> flt y) \<and> flt x \<and>
        update_one flt upd (a # ds) = ((a # pre) @ upd x # post, 1)"
      by simp
    then show ?thesis by blast
  qed
qed

lemma count_documents_filter: "count_documents flt ds = length (filter flt ds)"
  by (induction ds) auto

lemma object_id_VStr:
  "object_id R (VStr s) =
     (case ObjectId R (VStr s) of None \<Rightarrow> Inl (HTTPException 400 Invalid_id) | Some k \<Rightarrow> Inr (Some k))"
  by (simp add: object_id_def)

lemma sample_ObjectId_order: "ObjectId sample_runtime (VStr id_order) = Some id_order"
  by (simp add: sample_runtime_def id_order_def hex_lower_def)

lemma sample_ObjectId_A: "ObjectId sample_runtime (VStr id_A) = Some id_A"
  by (simp add: sample_runtime_def id_A_def hex_lower_def)

lemma sample_ObjectId_xyz: "ObjectId sample_runtime (VStr ''xyz'') = None"
  by (simp add: sample_runtime_def)

subsection \<open>Updating the status of an order\<close>

text \<open>
  C7. With the database available, \<^verbatim>\<open>update_order_status\<close> accepts exactly the five
  status values. A status outside the five fails with the 400 \<open>Invalid_status\<close>. For
  each of the five: when \<^verbatim>\<open>order_id\<close> is the identifier of a stored order the call
  succeeds and that order (the first with the identifier) gets the new status, whatever
  status it had; when \<^verbatim>\<open>order_id\<close> is a well-formed identifier of no stored order it
  fails with the 404 \<open>Order_not_found\<close> and changes nothing; when \<^verbatim>\<open>order_id\<close> is
  not a well-formed identifier it fails with the 400 \<open>Invalid_id\<close>.
\<close>

theorem update_order_status_cases:
  "set (statuses :: 'f pyval list) =
     {VStr ''pending'', VStr ''preparing'', VStr ''ready'', VStr ''completed'', VStr ''cancelled''} \<and>
   (get payload ''status'' \<notin> set statuses \<longrightarrow>
      update_order_status R (Some d) order_id payload =
        (Inl (HTTPException 400 Invalid_status), Some d)) \<and>
   (get payload ''status'' \<in> set statuses \<and> ObjectId R (VStr order_id) = Some key \<and>
    key \<in> fst ` set (order d) \<longrightarrow>
      (\<exists>pre ord post.
         order d = pre @ (key, ord) # post \<and> key \<notin> fst ` set pre \<and>
         update_order_status R (Some d) order_id payload =
           (Inr [(''updated'', VBool True)],
            Some (d\<lparr>order := pre @ (key, ord\<lparr>status := get payload ''status''\<rparr>) # post\<rparr>)))) \<and>
   (get payload ''status'' \<in> set statuses \<and> ObjectId R (VStr order_id) = Some key \<and>
    key \<notin> fst ` set (order d) \<longrightarrow>
      update_order_status R (Some d) order_id payload =
        (Inl (HTTPException 404 Order_not_found), Some d)) \<and>
   (get payload ''status'' \<in> set statuses \<and> ObjectId R (VStr order_id) = None \<longrightarrow>
      update_order_status R (Some d) order_id payload =
        (Inl (HTTPException 400 Invalid_id), Some d))"
proof (intro conjI impI)
  show "set (statuses :: 'f pyval list) =
     {VStr ''pending'', VStr ''preparing'', VStr ''ready'', VStr ''completed'', VStr ''cancelled''}"
    by (simp add: statuses_def)
next
  assume "get payload ''status'' \<notin> set statuses"
  then show "update_order_status R (Some d) order_id payload =
        (Inl (HTTPException 400 Invalid_status), Some d)"
    by (simp add: update_order_status_def)
next
  assume a: "get payload ''status'' \<in> set statuses \<and> ObjectId R (VStr order_id) = Some key \<and>
    key \<in> fst ` set (order d)"
  then have "\<exists>x\<in>set (order d). has_id (Some key) x"
    by (auto simp: has_id_def)
  from update_one_match[OF this, of "\<lambda>doc. (fst doc, (snd doc)\<lparr>status := get payload ''status''\<rparr>)"]
  obtain pre x post where
    *: "order d = pre @ x # post" "\<forall>y\<in>set pre. \<not> has_id (Some key) y" "has_id (Some key) x"
       "update_one (has_id (Some key)) (\<lambda>doc. (fst doc, (snd doc)\<lparr>status := get payload ''status''\<rparr>))
          (order d) = (pre @ (fst x, (snd x)\<lparr>status := get payload ''status''\<rparr>) # post, 1)"
    by blast
  obtain ord where x: "x = (key, ord)"
    using *(3) by (cases x) (simp add: has_id_def)
  from *(2) have pre: "key \<notin> fst ` set pre" by (auto simp: has_id_def)
  have run: "update_order_status R (Some d) order_id payload =
           (Inr [(''updated'', VBool True)],
            Some (d\<lparr>order := pre @ (key, ord\<lparr>status := get payload ''status''\<rparr>) # post\<rparr>))"
    using a *(4) by (simp add: update_order_status_def object_id_VStr x)
  from *(1) x pre run
  show "\<exists>pre ord post.
         order d = pre @ (key, ord) # post \<and> key \<notin> fst ` set pre \<and>
         update_order_status R (Some d) order_id payload =
           (Inr [(''updated'', VBool True)],
            Some (d\<lparr>order := pre @ (key, ord\<lparr>status := get payload ''status''\<rparr>) # post\<rparr>))"
    by blast
next
  assume a: "get payload ''status'' \<in> set statuses \<and> ObjectId R (VStr order_id) = Some key \<and>
    key \<notin> fst ` set (order d)"
  then have "\<forall>x\<in>set (order d). \<not> has_id (Some key) x"
    by (auto simp: has_id_def)
  from update_one_no_match[OF this] a
  show "update_order_status R (Some d) order_id payload =
        (Inl (HTTPException 404 Order_not_found), Some d)"
    by (simp add: update_order_status_def object_id_VStr)
next
  assume "get payload ''status'' \<in> set statuses \<and> ObjectId R (VStr order_id) = None"
  then show "update_order_status R (Some d) order_id payload =
        (Inl (HTTPException 400 Invalid_id), Some d)"
    by (simp add: update_order_status_def object_id_VStr)
qed

theorem update_order_status_cases_witness:
  "update_order_status sample_runtime (Some sample_db) id_order [(''status'', VStr ''done'')] =
     (Inl (HTTPException 400 Invalid_status), Some sample_db) \<and>
   (\<exists>pre ord post.
      order sample_db = pre @ (id_order, ord) # post \<and> id_order \<notin> fst ` set pre \<and>
      update_order_status sample_runtime (Some sample_db) id_order [(''status'', VStr ''ready'')] =
        (Inr [(''updated'', VBool True)],
         Some (sample_db\<lparr>order := pre @ (id_order, ord\<lparr>status := VStr ''ready''\<rparr>) # post\<rparr>))) \<and>
   update_order_status sample_runtime (Some sample_db) id_A [(''status'', VStr ''ready'')] =
     (Inl (HTTPException 404 Order_not_found), Some sample_db) \<and>
   update_order_status sample_runtime (Some sample_db) ''xyz'' [(''status'', VStr ''ready'')] =
     (Inl (HTTPException 400 Invalid_id), Some sample_db)"
proof (intro conjI)
  have bad: "get [(''status'', VStr ''done'' :: rat pyval)] ''status'' \<notin> set statuses"
    by (simp add: get_def get_default_def statuses_def)
  from update_order_status_cases[where payload = "[(''status'', VStr ''done'')]"
      and R = sample_runtime and d = sample_db and order_id = id_order] bad
  show "update_order_status sample_runtime (Some sample_db) id_order [(''status'', VStr ''done'')] =
     (Inl (HTTPException 400 Invalid_status), Some sample_db)"
    by blast
next
  have st: "get [(''status'', VStr ''ready'' :: rat pyval)] ''status'' = VStr ''ready''"
    by (simp add: get_def get_default_def)
  have ok: "get [(''status'', VStr ''ready'' :: rat pyval)] ''status'' \<in> set statuses"
    by (simp add: get_def get_default_def statuses_def)
  have mem: "id_order \<in> fst ` set (order sample_db)"
    by (simp add: sample_db_def)
  from update_order_status_cases[where payload = "[(''status'', VStr ''ready'')]"
      and R = sample_runtime and d = sample_db and order_id = id_order and key = id_order]
    ok mem sample_ObjectId_order
  show "\<exists>pre ord post.
      order sample_db = pre @ (id_order, ord) # post \<and> id_order \<notin> fst ` set pre \<and>
      update_order_status sample_runtime (Some sample_db) id_order [(''status'', VStr ''ready'')] =
        (Inr [(''updated'', VBool True)],
         Some (sample_db\<lparr>order := pre @ (id_order, ord\<lparr>status := VStr ''ready''\<rparr>) # post\<rparr>))"
    unfolding st by blast
next
  have ok: "get [(''status'', VStr ''ready'' :: rat pyval)] ''status'' \<in> set statuses"
    by (simp add: get_def get_default_def statuses_def)
  have nomem: "id_A \<notin> fst ` set (order sample_db)"
    by (simp add: sample_db_def id_A_def id_order_def)
  from update_order_status_cases[where payload = "[(''status'', VStr ''ready'')]"
      and R = sample_runtime and d = sample_db and order_id = id_A and key = id_A]
    ok nomem sample_ObjectId_A
  show "update_order_status sample_runtime (Some sample_db) id_A [(''status'', VStr ''ready'')] =
     (Inl (HTTPException 404 Order_not_found), Some sample_db)"
    by blast
next
  have ok: "get [(''status'', VStr ''ready'' :: rat pyval)] ''status'' \<in> set statuses"
    by (simp add: get_def get_default_def statuses_def)
  from update_order_status_cases[where payload = "[(''status'', VStr ''ready'')]"
      and R = sample_runtime and d = sample_db and order_id = "''xyz''"]
    ok sample_ObjectId_xyz
  show "update_order_status sample_runtime (Some sample_db) ''xyz'' [(''status'', VStr ''ready'')] =
     (Inl (HTTPException 400 Invalid_id), Some sample_db)"
    by blast
qed

text \<open>
  C9. The status is validated before the order id is resolved: with the database
  available, a status outside the five values gives the 400 \<open>Invalid_status\<close> for every
  \<^verbatim>\<open>order_id\<close>, malformed or unknown ones included, and the errors \<open>Invalid_id\<close> and
  \<open>Order_not_found\<close> only occur when the status is one of the five.
\<close>

theorem status_checked_before_id:
  "(get payload ''status'' \<notin> set statuses \<longrightarrow>
      update_order_status R (Some d) order_id payload =
        (Inl (HTTPException 400 Invalid_status), Some d)) \<and>
   (fst (update_order_status R db order_id payload) = Inl (HTTPException 400 Invalid_id) \<or>
    fst (update_order_status R db order_id payload) = Inl (HTTPException 404 Order_not_found) \<longrightarrow>
      get payload ''status'' \<in> set statuses)"
  by (auto simp: update_order_status_def Let_def object_id_VStr
           split: option.splits prod.splits if_splits)

theorem status_checked_before_id_witness:
  "get [(''status'', VStr ''done'' :: rat pyval)] ''status'' \<notin> set statuses \<and>
   ObjectId sample_runtime (VStr ''xyz'') = None \<and>
   update_order_status sample_runtime (Some sample_db) ''xyz'' [(''status'', VStr ''done'')] =
     (Inl (HTTPException 400 Invalid_status), Some sample_db) \<and>
   fst (update_order_status sample_runtime (Some sample_db) ''xyz'' [(''status'', VStr ''ready'')]) =
     Inl (HTTPException 400 Invalid_id) \<and>
   get [(''status'', VStr ''ready'' :: rat pyval)] ''status'' \<in> set statuses"
proof -
  have bad: "get [(''status'', VStr ''done'' :: rat pyval)] ''status'' \<notin> set statuses"
    by (simp add: get_def get_default_def statuses_def)
  have inv: "fst (update_order_status sample_runtime (Some sample_db) ''xyz''
                [(''status'', VStr ''ready'')]) = Inl (HTTPException 400 Invalid_id)"
    by (simp add: update_order_status_def get_def get_default_def statuses_def object_id_def
                  sample_ObjectId_xyz)
  from status_checked_before_id[where payload = "[(''status'', VStr ''done'')]"
      and R = sample_runtime and d = sample_db and order_id = "''xyz''"] bad
  have 1: "update_order_status sample_runtime (Some sample_db) ''xyz'' [(''status'', VStr ''done'')] =
     (Inl (HTTPException 400 Invalid_status), Some sample_db)"
    by blast
  from status_checked_before_id[where payload = "[(''status'', VStr ''ready'')]"
      and R = sample_runtime and db = "Some sample_db" and order_id = "''xyz''"] inv
  have 2: "get [(''status'', VStr ''ready'' :: rat pyval)] ''status'' \<in> set statuses"
    by blast
  from bad sample_ObjectId_xyz 1 inv 2 show ?thesis by blast
qed

subsection \<open>Metrics\<close>

text \<open>
  C8. \<^verbatim>\<open>metrics\<close> reads the database it is given and leaves it as it is: it returns
  as \<^verbatim>\<open>total_menu\<close> the number of menu item documents, as \<^verbatim>\<open>active_orders\<close> the number
  of orders whose status is \<^verbatim>\<open>pending\<close> or \<^verbatim>\<open>preparing\<close>, and as
  \<^verbatim>\<open>completed_orders\<close> the number of orders whose status is \<^verbatim>\<open>completed\<close>. The
  counts are those of the database at the call, so each call computes them anew.
\<close>

theorem metrics_counts:
  "metrics (Some d) =
     (Inr [(''total_menu'', VInt (int (length (menuitem d)))),
           (''active_orders'',
            VInt (int (length (filter
              (\<lambda>doc. status (snd doc) = VStr ''pending'' \<or> status (snd doc) = VStr ''preparing'')
              (order d))))),
           (''completed_orders'',
            VInt (int (length (filter (\<lambda>doc. status (snd doc) = VStr ''completed'') (order d)))))],
      Some d)"
  by (simp add: metrics_def count_documents_filter)

theorem metrics_counts_witness:
  "metrics (Some sample_db) =
     (Inr [(''total_menu'', VInt 3), (''active_orders'', VInt 1), (''completed_orders'', VInt 0)],
      Some sample_db)"
  using metrics_counts[of sample_db]
  by (simp add: sample_db_def sample_menu_def sample_order_def)

subsection \<open>Failure of the pricing loop\<close>









lemma find_one_None: "find_one flt ds = None \<longleftrightarrow> (\<forall>x\<in>set ds. \<not> flt x)"
  by (induction ds) auto

subsection \<open>Creation is all or nothing\<close>




subsection \<open>A request with no lines\<close>

text \<open>
  C4, as the code has it. \<^verbatim>\<open>create_order\<close> has no check on the length of
  \<^verbatim>\<open>items\<close>, and \<^verbatim>\<open>Order.items\<close> is any list. For a request with no lines the loop
  body never runs: with the database available, and the three amounts
  \<^verbatim>\<open>round(0.0, 2)\<close>, \<^verbatim>\<open>round(0.0 * 0.05, 2)\<close> and \<^verbatim>\<open>round(0.0 + tax, 2)\<close> passing
  \<^verbatim>\<open>ge=0\<close>, an order with no items and status \<^verbatim>\<open>pending\<close> is stored under a new
  identifier and its amounts are returned.
\<close>

theorem create_order_empty_items:
  assumes "CreateOrder.items payload = []"
  shows "create_order R (Some d) payload =
     (if ge0 R (round2 R (zero_f R)) \<and>
         ge0 R (round2 R (fmul R (zero_f R) (tax_rate R))) \<and>
         ge0 R (round2 R (fadd R (zero_f R) (round2 R (fmul R (zero_f R) (tax_rate R)))))
      then
        (Inr [(''id'', VStr (new_id R (map fst (order d)))),
              (''subtotal'', VFloat (round2 R (zero_f R))),
              (''tax'', VFloat (round2 R (fmul R (zero_f R) (tax_rate R)))),
              (''total'',
               VFloat (round2 R (fadd R (zero_f R) (round2 R (fmul R (zero_f R) (tax_rate R))))))],
         Some (d\<lparr>order := order d @
           [(new_id R (map fst (order d)),
             \<lparr>order.customer_name = CreateOrder.customer_name payload,
              order.table_number = CreateOrder.table_number payload,
              order.items = [],
              subtotal = round2 R (zero_f R),
              tax = round2 R (fmul R (zero_f R) (tax_rate R)),
              total = round2 R (fadd R (zero_f R) (round2 R (fmul R (zero_f R) (tax_rate R)))),
              status = VStr ''pending''\<rparr>)]\<rparr>))
      else (Inl ValidationError, Some d))"
  using assms by (simp add: create_order_def Order_def create_document_def Let_def)

theorem create_order_empty_items_witness:
  "CreateOrder.items no_items = [] \<and>
   create_order sample_runtime (Some empty_db) no_items =
     (Inr [(''id'', VStr id_order), (''subtotal'', VFloat 0), (''tax'', VFloat 0),
           (''total'', VFloat 0)],
      Some (empty_db\<lparr>order :=
        [(id_order,
          \<lparr>order.customer_name = ''Asha'', order.table_number = None, order.items = [],
           subtotal = 0, tax = 0, total = 0, status = VStr ''pending''\<rparr>)]\<rparr>))"
proof -
  have h: "CreateOrder.items no_items = []" by (simp add: no_items_def)
  from create_order_empty_items[OF h, of sample_runtime empty_db] h show ?thesis
    by (simp add: sample_simps no_items_def)
qed

text \<open>The claim as stated fails: the request with no lines stores an order with no items.\<close>

theorem create_order_empty_items_persists:
  "create_order sample_runtime (Some empty_db) no_items =
     (Inr [(''id'', VStr id_order), (''subtotal'', VFloat 0), (''tax'', VFloat 0),
           (''total'', VFloat 0)],
      Some (empty_db\<lparr>order :=
        [(id_order,
          \<lparr>order.customer_name = ''Asha'', order.table_number = None, order.items = [],
           subtotal = 0, tax = 0, total = 0, status = VStr ''pending''\<rparr>)]\<rparr>))"
  by (simp add: sample_simps no_items_def)

subsection \<open>The customer name\<close>

lemma create_order_fst_name:
  "fst (create_order R db (payload\<lparr>customer_name := n\<rparr>)) = fst (create_order R db payload)"
  by (simp add: create_order_def Order_def create_document_def Let_def
           split: option.splits sum.splits prod.splits)


text \<open>
  C5, as the code has it. \<^verbatim>\<open>customer_name\<close> is a \<^verbatim>\<open>str\<close> with no constraint in
  \<^verbatim>\<open>CreateOrder\<close> and in \<^verbatim>\<open>Order\<close>, and \<^verbatim>\<open>create_order\<close> never looks at it: what
  the call returns, the amounts or the error, is the same for every customer name, and
  an order that is created stores the name as it was given, the empty string included.
\<close>

theorem create_order_any_customer_name:
  "fst (create_order R db (payload\<lparr>customer_name := n\<rparr>)) = fst (create_order R db payload) \<and>
   (create_order R (Some d) payload = (Inr resp, db') \<longrightarrow>
      (\<exists>order_id od. db' = Some (d\<lparr>order := order d @ [(order_id, od)]\<rparr>) \<and>
         order.customer_name od = CreateOrder.customer_name payload))"
proof (intro conjI impI)
  show "fst (create_order R db (payload\<lparr>customer_name := n\<rparr>)) = fst (create_order R db payload)"
    by (rule create_order_fst_name)
next
  assume "create_order R (Some d) payload = (Inr resp, db')"
  from create_order_Inr[OF this] obtain its sub od where
    od: "Order R (CreateOrder.customer_name payload) (CreateOrder.table_number payload) its
        (round2 R sub) (round2 R (fmul R sub (tax_rate R)))
        (round2 R (fadd R sub (round2 R (fmul R sub (tax_rate R))))) = Inr od"
    and db': "db' = Some (d\<lparr>order := order d @ [(new_id R (map fst (order d)), od)]\<rparr>)"
    by blast
  from Order_Inr[OF od] have "order.customer_name od = CreateOrder.customer_name payload"
    by simp
  with db' show "\<exists>order_id od. db' = Some (d\<lparr>order := order d @ [(order_id, od)]\<rparr>) \<and>
         order.customer_name od = CreateOrder.customer_name payload"
    by blast
qed

theorem create_order_any_customer_name_witness:
  "create_order sample_runtime (Some empty_db) two_teas_no_name =
     (Inr [(''id'', VStr id_order), (''subtotal'', VFloat 20), (''tax'', VFloat 1),
           (''total'', VFloat 21)],
      Some (empty_db\<lparr>order := [(id_order, sample_order\<lparr>order.customer_name := []\<rparr>)]\<rparr>)) \<and>
   fst (create_order sample_runtime (Some empty_db) (two_teas\<lparr>customer_name := []\<rparr>)) =
     fst (create_order sample_runtime (Some empty_db) two_teas) \<and>
   (\<exists>order_id od.
      Some (empty_db\<lparr>order := [(id_order, sample_order\<lparr>order.customer_name := []\<rparr>)]\<rparr>) =
        Some (empty_db\<lparr>order := order empty_db @ [(order_id, od)]\<rparr>) \<and>
      order.customer_name od = CreateOrder.customer_name two_teas_no_name)"
proof -
  have run: "create_order sample_runtime (Some empty_db) two_teas_no_name =
     (Inr [(''id'', VStr id_order), (''subtotal'', VFloat 20), (''tax'', VFloat 1),
           (''total'', VFloat 21)],
      Some (empty_db\<lparr>order := [(id_order, sample_order\<lparr>order.customer_name := []\<rparr>)]\<rparr>))"
    by (simp add: sample_simps two_teas_def two_teas_no_name_def)
  from create_order_any_customer_name[where R = sample_runtime and db = "Some empty_db"
      and payload = two_teas and n = "[]"]
  have 1: "fst (create_order sample_runtime (Some empty_db) (two_teas\<lparr>customer_name := []\<rparr>)) =
     fst (create_order sample_runtime (Some empty_db) two_teas)"
    by (rule conjunct1)
  from create_order_any_customer_name[where R = sample_runtime and d = empty_db
      and payload = two_teas_no_name] run
  have 2: "\<exists>order_id od.
      Some (empty_db\<lparr>order := [(id_order, sample_order\<lparr>order.customer_name := []\<rparr>)]\<rparr>) =
        Some (empty_db\<lparr>order := order empty_db @ [(order_id, od)]\<rparr>) \<and>
      order.customer_name od = CreateOrder.customer_name two_teas_no_name"
    by blast
  from run 1 2 show ?thesis by blast
qed

text \<open>
  The claim as stated fails: the request for two of item A under the empty customer name
  succeeds and stores the order.
\<close>

theorem create_order_empty_customer_name:
  "CreateOrder.customer_name two_teas_no_name = [] \<and>
   create_order sample_runtime (Some empty_db) two_teas_no_name =
     (Inr [(''id'', VStr id_order), (''subtotal'', VFloat 20), (''tax'', VFloat 1),
           (''total'', VFloat 21)],
      Some (empty_db\<lparr>order := [(id_order, sample_order\<lparr>order.customer_name := []\<rparr>)]\<rparr>))"
  by (simp add: sample_simps two_teas_def two_teas_no_name_def)

subsection \<open>Quantities\<close>











subsection \<open>A menu item stored without a price\<close>

lemma price_lines_sub_indep:
  "map_sum id snd (price_lines R menu ls its s) = map_sum id snd (price_lines R menu ls its' s)"
  by (induction ls arbitrary: its its' s) (auto split: sum.splits)

lemma create_order_fst:
  "fst (create_order R (Some d) payload) =
     (case map_sum id snd (price_lines R (menuitem d) (CreateOrder.items payload) [] (zero_f R)) of
        Inl e \<Rightarrow> Inl e
      | Inr sub \<Rightarrow>
          if ge0 R (round2 R sub) \<and> ge0 R (round2 R (fmul R sub (tax_rate R))) \<and>
             ge0 R (round2 R (fadd R sub (round2 R (fmul R sub (tax_rate R)))))
          then Inr [(''id'', VStr (new_id R (map fst (order d)))),
                    (''subtotal'', VFloat (round2 R sub)),
                    (''tax'', VFloat (round2 R (fmul R sub (tax_rate R)))),
                    (''total'', VFloat (round2 R (fadd R sub (round2 R (fmul R sub (tax_rate R))))))]
          else Inl ValidationError)"
  by (simp add: create_order_def Order_def create_document_def Let_def split: sum.splits prod.splits)

lemma price_lines_skip_zero:
  assumes it: "price_line R menu i = Inr it"
      and zero: "line_total it = zero_f R"
      and add0: "\<forall>its s. price_lines R menu pre [] (zero_f R) = Inr (its, s) \<longrightarrow> fadd R s (zero_f R) = s"
  shows "map_sum id snd (price_lines R menu (pre @ i # post) [] (zero_f R)) =
         map_sum id snd (price_lines R menu (pre @ post) [] (zero_f R))"
proof (cases "price_lines R menu pre [] (zero_f R)")
  case (Inl e)
  then show ?thesis by (simp add: price_lines_append)
next
  case (Inr r)
  obtain its s where r: "r = (its, s)" by (cases r)
  with Inr add0 have s: "fadd R s (zero_f R) = s" by blast
  have "map_sum id snd (price_lines R menu (pre @ i # post) [] (zero_f R)) =
        map_sum id snd (price_lines R menu post (its @ [it]) s)"
    using Inr r it zero s by (simp add: price_lines_append)
  also have "\<dots> = map_sum id snd (price_lines R menu post its s)"
    by (rule price_lines_sub_indep)
  also have "\<dots> = map_sum id snd (price_lines R menu (pre @ post) [] (zero_f R))"
    using Inr r by (simp add: price_lines_append)
  finally show ?thesis .
qed

lemma price_line_missing_price:
  assumes "py_int R (get_default i ''quantity'' (VInt 1)) = Inr q"
      and "object_id R (get i ''menu_item_id'') = Inr key"
      and "find_available menu key = Some doc"
      and "map_of (snd doc) ''price'' = None"
      and "get (snd doc) ''name'' = VStr nm"
      and "1 \<le> q"
      and "float_of_int R q = Some fq"
      and "float_of_int R 0 = Some (zero_f R)"
      and "fmul R (zero_f R) fq = zero_f R"
      and "ge0 R (zero_f R)"
  shows "price_line R menu i =
     Inr \<lparr>menu_item_id = fst doc, name = nm, price = zero_f R, quantity = q,
          line_total = zero_f R\<rparr>"
  using assms by (simp add: price_line_def get_default_def Orderitem_def)

lemma price_lines_acc:
  "price_lines R menu ls its s =
     map_sum id (\<lambda>r. (its @ fst r, snd r)) (price_lines R menu ls [] s)"
proof (induction ls arbitrary: its s)
  case Nil
  then show ?case by simp
next
  case (Cons i rest)
  show ?case
  proof (cases "price_line R menu i")
    case (Inl e)
    then show ?thesis by simp
  next
    case (Inr it)
    let ?s = "fadd R s (line_total it)"
    have a: "price_lines R menu rest (its @ [it]) ?s =
        map_sum id (\<lambda>r. ((its @ [it]) @ fst r, snd r)) (price_lines R menu rest [] ?s)"
      by (rule Cons.IH)
    have b: "price_lines R menu rest [it] ?s =
        map_sum id (\<lambda>r. ([it] @ fst r, snd r)) (price_lines R menu rest [] ?s)"
      by (rule Cons.IH)
    show ?thesis
      using Inr a b by (cases "price_lines R menu rest [] ?s") simp_all
  qed
qed

lemma price_lines_length:
  "price_lines R menu ls [] s = Inr (its, s') \<Longrightarrow> length its = length ls"
  by (drule price_lines_Inr) (auto dest: arg_cong[where f = length])

lemma price_lines_insert_zero:
  assumes it: "price_line R menu i = Inr it"
      and zero: "line_total it = zero_f R"
      and add0: "\<forall>its s. price_lines R menu pre [] (zero_f R) = Inr (its, s) \<longrightarrow> fadd R s (zero_f R) = s"
      and without: "price_lines R menu (pre @ post) [] (zero_f R) = Inr (its, s)"
  shows "price_lines R menu (pre @ i # post) [] (zero_f R) =
           Inr (take (length pre) its @ it # drop (length pre) its, s)"
proof -
  from without obtain its1 s1 where
    pre: "price_lines R menu pre [] (zero_f R) = Inr (its1, s1)" and
    post: "price_lines R menu post its1 s1 = Inr (its, s)"
    by (auto simp: price_lines_append split: sum.splits)
  from price_lines_length[OF pre] have len: "length its1 = length pre" .
  from post obtain new where
    new: "price_lines R menu post [] s1 = Inr (new, s)" and its: "its = its1 @ new"
    by (subst (asm) price_lines_acc) (cases "price_lines R menu post [] s1", auto)
  from add0 pre have s1: "fadd R s1 (zero_f R) = s1" by blast
  have "price_lines R menu (pre @ i # post) [] (zero_f R) =
        price_lines R menu post (its1 @ [it]) s1"
    using pre it zero s1 by (simp add: price_lines_append)
  also have "\<dots> = Inr ((its1 @ [it]) @ new, s)"
    by (subst price_lines_acc) (simp add: new)
  finally show ?thesis using its len by simp
qed

text \<open>
  C10. Take a line whose item is found available and whose document has no \<^verbatim>\<open>price\<close>
  field, with a name that is a string and a quantity of at least 1 that converts to a
  float. The price is \<^verbatim>\<open>float(doc.get("price", 0))\<close>, that is \<^verbatim>\<open>float(0)\<close>. For a
  runtime in which \<^verbatim>\<open>float(0)\<close> is \<^verbatim>\<open>0.0\<close>, \<^verbatim>\<open>0.0\<close> times the quantity is \<^verbatim>\<open>0.0\<close>
  and \<^verbatim>\<open>0.0 >= 0\<close>, as for Python's floats, the line does not fail: its order line has
  price \<^verbatim>\<open>0.0\<close> and line total \<^verbatim>\<open>0.0\<close>. When adding \<^verbatim>\<open>0.0\<close> to the subtotal
  accumulated over the lines before it leaves that subtotal unchanged, the line
  contributes nothing: what \<^verbatim>\<open>create_order\<close> returns (the identifier, subtotal, tax
  and total, or the error of another line) is what it returns for the request without
  the line; and whenever the request without the line creates an order, the request
  with the line creates the same order (same identifier, subtotal, tax and total) with
  the line of price \<^verbatim>\<open>0.0\<close> and line total \<^verbatim>\<open>0.0\<close> inserted at its place among the
  items.
\<close>

theorem missing_price_is_zero:
  assumes "py_int R (get_default i ''quantity'' (VInt 1)) = Inr q"
      and "object_id R (get i ''menu_item_id'') = Inr key"
      and "find_available (menuitem d) key = Some doc"
      and "map_of (snd doc) ''price'' = None"
      and "get (snd doc) ''name'' = VStr nm"
      and "1 \<le> q"
      and "float_of_int R q = Some fq"
      and "float_of_int R 0 = Some (zero_f R)"
      and "fmul R (zero_f R) fq = zero_f R"
      and "ge0 R (zero_f R)"
      and "CreateOrder.items payload = pre @ i # post"
      and "\<forall>its s. price_lines R (menuitem d) pre [] (zero_f R) = Inr (its, s) \<longrightarrow>
                   fadd R s (zero_f R) = s"
  shows "price_line R (menuitem d) i =
           Inr \<lparr>menu_item_id = fst doc, name = nm, price = zero_f R, quantity = q,
                line_total = zero_f R\<rparr> \<and>
         fst (create_order R (Some d) payload) =
           fst (create_order R (Some d) (payload\<lparr>items := pre @ post\<rparr>)) \<and>
         (\<forall>resp db'.
            create_order R (Some d) (payload\<lparr>items := pre @ post\<rparr>) = (Inr resp, db') \<longrightarrow>
            (\<exists>order_id od.
               db' = Some (d\<lparr>order := order d @ [(order_id, od)]\<rparr>) \<and>
               create_order R (Some d) payload =
                 (Inr resp,
                  Some (d\<lparr>order := order d @
                    [(order_id,
                      od\<lparr>order.items :=
                           take (length pre) (order.items od) @
                           \<lparr>menu_item_id = fst doc, name = nm, price = zero_f R, quantity = q,
                            line_total = zero_f R\<rparr> #
                           drop (length pre) (order.items od)\<rparr>)]\<rparr>))))"
proof (intro conjI allI impI)
  let ?it = "\<lparr>menu_item_id = fst doc, name = nm, price = zero_f R, quantity = q,
                line_total = zero_f R\<rparr>"
  show line: "price_line R (menuitem d) i = Inr ?it"
    using assms(1-10) by (rule price_line_missing_price)
  have zero: "line_total ?it = zero_f R"
    by simp
  note add0 = assms(12)
  have "map_sum id snd (price_lines R (menuitem d) (pre @ i # post) [] (zero_f R)) =
        map_sum id snd (price_lines R (menuitem d) (pre @ post) [] (zero_f R))"
    by (rule price_lines_skip_zero[OF line zero add0])
  with assms(11) show "fst (create_order R (Some d) payload) =
            fst (create_order R (Some d) (payload\<lparr>items := pre @ post\<rparr>))"
    by (simp add: create_order_fst)
  fix resp db'
  assume ok: "create_order R (Some d) (payload\<lparr>items := pre @ post\<rparr>) = (Inr resp, db')"
  let ?tx = "\<lambda>sub. round2 R (fmul R sub (tax_rate R))"
  from create_order_Inr[OF ok] obtain its sub od where
    lines: "price_lines R (menuitem d) (pre @ post) [] (zero_f R) = Inr (its, sub)"
    and od: "Order R (CreateOrder.customer_name payload) (CreateOrder.table_number payload) its
        (round2 R sub) (?tx sub) (round2 R (fadd R sub (?tx sub))) = Inr od"
    and db': "db' = Some (d\<lparr>order := order d @ [(new_id R (map fst (order d)), od)]\<rparr>)"
    and resp: "resp = [(''id'', VStr (new_id R (map fst (order d)))),
              (''subtotal'', VFloat (subtotal od)),
              (''tax'', VFloat (tax od)),
              (''total'', VFloat (total od))]"
    by auto
  from Order_Inr[OF od] have items: "order.items od = its" by simp
  have with_line: "price_lines R (menuitem d) (CreateOrder.items payload) [] (zero_f R) =
      Inr (take (length pre) its @ ?it # drop (length pre) its, sub)"
    unfolding assms(11) by (rule price_lines_insert_zero[OF line zero add0 lines])
  from od have od': "Order R (CreateOrder.customer_name payload) (CreateOrder.table_number payload)
        (take (length pre) its @ ?it # drop (length pre) its)
        (round2 R sub) (?tx sub) (round2 R (fadd R sub (?tx sub))) =
      Inr (od\<lparr>order.items := take (length pre) its @ ?it # drop (length pre) its\<rparr>)"
    by (auto simp: Order_def split: if_splits)
  have "create_order R (Some d) payload =
      (Inr resp,
       Some (d\<lparr>order := order d @
          [(new_id R (map fst (order d)),
            od\<lparr>order.items := take (length pre) its @ ?it # drop (length pre) its\<rparr>)]\<rparr>))"
    by (simp add: create_order_def with_line od' resp create_document_def Let_def)
  with db' items
  show "\<exists>order_id od.
               db' = Some (d\<lparr>order := order d @ [(order_id, od)]\<rparr>) \<and>
               create_order R (Some d) payload =
                 (Inr resp,
                  Some (d\<lparr>order := order d @
                    [(order_id,
                      od\<lparr>order.items :=
                           take (length pre) (order.items od) @ ?it #
                           drop (length pre) (order.items od)\<rparr>)]\<rparr>))"
    by blast
qed

theorem missing_price_is_zero_witness:
  "find_available (menuitem empty_db) (Some id_C) =
     Some (id_C, [(''name'', VStr ''Water''), (''is_available'', VBool True)]) \<and>
   price_line sample_runtime (menuitem empty_db)
       [(''menu_item_id'', VStr id_C), (''quantity'', VInt 3)] =
     Inr \<lparr>menu_item_id = id_C, name = ''Water'', price = 0, quantity = 3, line_total = 0\<rparr> \<and>
   create_order sample_runtime (Some empty_db) two_teas =
     (Inr [(''id'', VStr id_order), (''subtotal'', VFloat 20), (''tax'', VFloat 1),
           (''total'', VFloat 21)],
      Some (empty_db\<lparr>order := [(id_order, sample_order)]\<rparr>)) \<and>
   create_order sample_runtime (Some empty_db) tea_and_water =
     (Inr [(''id'', VStr id_order), (''subtotal'', VFloat 20), (''tax'', VFloat 1),
           (''total'', VFloat 21)],
      Some (empty_db\<lparr>order :=
        [(id_order,
          sample_order\<lparr>order.items :=
            [\<lparr>menu_item_id = id_A, name = ''Tea'', price = 10, quantity = 2, line_total = 20\<rparr>,
             \<lparr>menu_item_id = id_C, name = ''Water'', price = 0, quantity = 3, line_total = 0\<rparr>]\<rparr>)]\<rparr>))"
proof -
  let ?i = "[(''menu_item_id'', VStr id_C), (''quantity'', VInt 3)] :: rat pydict"
  let ?a = "[(''menu_item_id'', VStr id_A), (''quantity'', VInt 2)] :: rat pydict"
  let ?doc = "(id_C, [(''name'', VStr ''Water''), (''is_available'', VBool True)]) :: oid \<times> rat pydict"
  let ?resp = "[(''id'', VStr id_order), (''subtotal'', VFloat 20), (''tax'', VFloat 1),
           (''total'', VFloat 21)] :: rat pydict"
  have h1: "py_int sample_runtime (get_default ?i ''quantity'' (VInt 1)) = Inr 3"
    by (simp add: get_default_def)
  have h2: "object_id sample_runtime (get ?i ''menu_item_id'') = Inr (Some id_C)"
    by (simp add: sample_simps)
  have h3: "find_available (menuitem empty_db) (Some id_C) = Some ?doc"
    by (simp add: sample_simps)
  have h4: "map_of (snd ?doc) ''price'' = None" by simp
  have h5: "get (snd ?doc) ''name'' = VStr ''Water''" by (simp add: get_def get_default_def)
  have h6: "(1::int) \<le> 3" by simp
  have h7: "float_of_int sample_runtime 3 = Some 3" by (simp add: sample_runtime_def)
  have h8: "float_of_int sample_runtime 0 = Some (zero_f sample_runtime)"
    by (simp add: sample_runtime_def)
  have h9: "fmul sample_runtime (zero_f sample_runtime) 3 = zero_f sample_runtime"
    by (simp add: sample_runtime_def)
  have h10: "ge0 sample_runtime (zero_f sample_runtime)" by (simp add: sample_runtime_def)
  have z: "zero_f sample_runtime = 0" by (simp add: sample_runtime_def)
  have split: "CreateOrder.items tea_and_water = [?a] @ ?i # []"
    by (simp add: tea_and_water_def)
  have add0: "\<forall>its s. price_lines sample_runtime (menuitem empty_db) [?a] [] (zero_f sample_runtime) =
                Inr (its, s) \<longrightarrow> fadd sample_runtime s (zero_f sample_runtime) = s"
    by (simp add: sample_runtime_def)
  have rest: "tea_and_water\<lparr>items := [?a] @ []\<rparr> = two_teas"
    by (simp add: tea_and_water_def two_teas_def)
  have without: "create_order sample_runtime (Some empty_db) (tea_and_water\<lparr>items := [?a] @ []\<rparr>) =
      (Inr ?resp, Some sample_db)"
    unfolding rest by (rule run_two_teas)
  have db: "sample_db = empty_db\<lparr>order := [(id_order, sample_order)]\<rparr>"
    by (simp add: sample_db_def empty_db_def)
  note T = missing_price_is_zero[OF h1 h2 h3 h4 h5 h6 h7 h8 h9 h10 split add0]
  from T have line: "price_line sample_runtime (menuitem empty_db) ?i =
     Inr \<lparr>menu_item_id = id_C, name = ''Water'', price = 0, quantity = 3, line_total = 0\<rparr>"
    by (simp add: z)
  from T without obtain order_id od where
    stored: "Some sample_db = Some (empty_db\<lparr>order := order empty_db @ [(order_id, od)]\<rparr>)"
    and created: "create_order sample_runtime (Some empty_db) tea_and_water =
      (Inr ?resp,
       Some (empty_db\<lparr>order := order empty_db @
          [(order_id,
            od\<lparr>order.items :=
                 take (length [?a]) (order.items od) @
                 \<lparr>menu_item_id = fst ?doc, name = ''Water'', price = zero_f sample_runtime,
                  quantity = 3, line_total = zero_f sample_runtime\<rparr> #
                 drop (length [?a]) (order.items od)\<rparr>)]\<rparr>))"
    by blast
  from stored have "order_id = id_order" "od = sample_order"
    by (simp_all add: sample_db_def empty_db_def)
  with created have run: "create_order sample_runtime (Some empty_db) tea_and_water =
     (Inr ?resp,
      Some (empty_db\<lparr>order :=
        [(id_order,
          sample_order\<lparr>order.items :=
            [\<lparr>menu_item_id = id_A, name = ''Tea'', price = 10, quantity = 2, line_total = 20\<rparr>,
             \<lparr>menu_item_id = id_C, name = ''Water'', price = 0, quantity = 3, line_total = 0\<rparr>]\<rparr>)]\<rparr>))"
    by (simp add: z sample_order_def empty_db_def)
  from run_two_teas db have two: "create_order sample_runtime (Some empty_db) two_teas =
     (Inr ?resp, Some (empty_db\<lparr>order := [(id_order, sample_order)]\<rparr>))"
    by simp
  from h3 line two run show ?thesis by blast
qed

subsection \<open>Stored orders keep their items and amounts\<close>

lemma update_one_map:
  "(\<And>x. f (upd x) = f x) \<Longrightarrow> map f (fst (update_one flt upd ds)) = map f ds"
  by (induction ds) (auto split: prod.splits)

lemma update_one_cases:
  "update_one flt upd ds = (ds, 0) \<or>
   (\<exists>pre x post. ds = pre @ x # post \<and> flt x \<and> update_one flt upd ds = (pre @ upd x # post, 1))"
proof (cases "\<exists>x\<in>set ds. flt x")
  case True
  from update_one_match[OF this, of upd] show ?thesis by blast
next
  case False
  then have "\<forall>x\<in>set ds. \<not> flt x" by blast
  from update_one_no_match[OF this] show ?thesis by blast
qed

lemma update_menu_item_orders:
  assumes "update_menu_item R (Some d) item_id patch = (res, db')"
  shows "\<exists>d'. db' = Some d' \<and> order d' = order d"
  using assms
  by (auto simp: update_menu_item_def split: sum.splits prod.splits if_splits)

lemma delete_menu_item_orders:
  assumes "delete_menu_item R (Some d) item_id = (res, db')"
  shows "\<exists>d'. db' = Some d' \<and> order d' = order d"
  using assms
  by (auto simp: delete_menu_item_def split: sum.splits prod.splits if_splits)

lemma add_menu_item_orders:
  assumes "add_menu_item R (Some d) item = (res, db')"
  shows "\<exists>d'. db' = Some d' \<and> order d' = order d"
  using assms
  by (auto simp: add_menu_item_def create_document_def Let_def split: prod.splits)

lemma create_order_orders:
  assumes "create_order R (Some d) payload = (res, db')"
  shows "\<exists>d' new. db' = Some d' \<and> order d' = order d @ new"
  using assms
  by (auto simp: create_order_def create_document_def Let_def
           split: sum.splits prod.splits)

lemma update_order_status_orders:
  assumes "update_order_status R (Some d) order_id patch = (res, db')"
  shows "\<exists>d'. db' = Some d' \<and> menuitem d' = menuitem d \<and>
           (order d' = order d \<or>
            (\<exists>pre key ord post.
               ObjectId R (VStr order_id) = Some key \<and>
               order d = pre @ (key, ord) # post \<and>
               order d' = pre @ (key, ord\<lparr>status := get patch ''status''\<rparr>) # post))"
proof (cases "get patch ''status'' \<in> set statuses")
  case False
  with assms show ?thesis by (auto simp: update_order_status_def)
next
  case True
  show ?thesis
  proof (cases "ObjectId R (VStr order_id)")
    case None
    with True assms show ?thesis
      by (auto simp: update_order_status_def object_id_VStr)
  next
    case (Some key)
    let ?upd = "\<lambda>doc :: oid \<times> 'a order. (fst doc, (snd doc)\<lparr>status := get patch ''status''\<rparr>)"
    from update_one_cases[of "has_id (Some key)" ?upd "order d"]
    show ?thesis
    proof
      assume u: "update_one (has_id (Some key)) ?upd (order d) = (order d, 0)"
      with True Some assms show ?thesis
        by (auto simp: update_order_status_def object_id_VStr)
    next
      assume "\<exists>pre x post. order d = pre @ x # post \<and> has_id (Some key) x \<and>
        update_one (has_id (Some key)) ?upd (order d) = (pre @ ?upd x # post, 1)"
      then obtain pre x post where
        *: "order d = pre @ x # post" "has_id (Some key) x"
           "update_one (has_id (Some key)) ?upd (order d) = (pre @ ?upd x # post, 1)"
        by blast
      obtain ord where x: "x = (key, ord)"
        using *(2) by (cases x) (simp add: has_id_def)
      from True Some assms *(3) x
      have db': "db' = Some (d\<lparr>order := pre @ (key, ord\<lparr>status := get patch ''status''\<rparr>) # post\<rparr>)"
        by (auto simp: update_order_status_def object_id_VStr)
      have "menuitem (d\<lparr>order := pre @ (key, ord\<lparr>status := get patch ''status''\<rparr>) # post\<rparr>) =
              menuitem d \<and>
            ObjectId R (VStr order_id) = Some key \<and>
            order d = pre @ (key, ord) # post \<and>
            order (d\<lparr>order := pre @ (key, ord\<lparr>status := get patch ''status''\<rparr>) # post\<rparr>) =
              pre @ (key, ord\<lparr>status := get patch ''status''\<rparr>) # post"
        using Some *(1) x by simp
      with db' show ?thesis by blast
    qed
  qed
qed

lemma priced_part_status: "priced_part (key, ord\<lparr>status := st\<rparr>) = priced_part (key, ord)"
  by (simp add: priced_part_def)

lemma run_reprice:
  "update_menu_item sample_runtime (Some sample_db) id_A [(''price'', VFloat 12)] =
     (Inr [(''updated'', VBool True)], Some repriced_db)"
  by (simp add: update_menu_item_def object_id_VStr sample_runtime_def hex_lower_def
                sample_db_def repriced_db_def sample_menu_def has_id_def id_A_def id_B_def id_C_def)

lemma run_ready:
  "update_order_status sample_runtime (Some sample_db) id_order [(''status'', VStr ''ready'')] =
     (Inr [(''updated'', VBool True)],
      Some (sample_db\<lparr>order := [(id_order, sample_order\<lparr>status := VStr ''ready''\<rparr>)]\<rparr>))"
  by (simp add: update_order_status_def object_id_VStr sample_ObjectId_order sample_db_def
                has_id_def get_def get_default_def statuses_def)

text \<open>
  C3. No operation changes the items, subtotal, tax or total of a stored order. For
  every request to the service, the stored orders with their identifiers, items and
  amounts are afterwards what they were, in the same order, followed by the order the
  request may have created. \<^verbatim>\<open>update_menu_item\<close> leaves the order collection as it
  is, so a price set in the catalog does not reach the prices copied into the lines of
  stored orders. \<^verbatim>\<open>update_order_status\<close> leaves the menu as it is and either leaves
  the order collection as it is or replaces the status, and nothing else, of one order:
  one whose identifier is that of the request.
\<close>

theorem orders_frozen:
  "(handle R (Some d) r = (res, db') \<longrightarrow>
      (\<exists>d' new. db' = Some d' \<and> map priced_part (order d') = map priced_part (order d) @ new)) \<and>
   (update_menu_item R (Some d) item_id patch = (res, db') \<longrightarrow>
      (\<exists>d'. db' = Some d' \<and> order d' = order d)) \<and>
   (update_order_status R (Some d) order_id patch = (res, db') \<longrightarrow>
      (\<exists>d'. db' = Some d' \<and> menuitem d' = menuitem d \<and>
         (order d' = order d \<or>
          (\<exists>pre key ord post.
             ObjectId R (VStr order_id) = Some key \<and>
             order d = pre @ (key, ord) # post \<and>
             order d' = pre @ (key, ord\<lparr>status := get patch ''status''\<rparr>) # post))))"
proof (intro conjI impI)
  assume h: "handle R (Some d) r = (res, db')"
  have same: "\<exists>d' new. db' = Some d' \<and> map priced_part (order d') = map priced_part (order d) @ new"
    if "\<exists>d'. db' = Some d' \<and> order d' = order d"
    using that by auto
  show "\<exists>d' new. db' = Some d' \<and> map priced_part (order d') = map priced_part (order d) @ new"
  proof (cases r)
    case (AddMenuItem item)
    with h show ?thesis by (intro same add_menu_item_orders[of R d item res]) simp
  next
    case ListMenu
    with h show ?thesis by (intro same) (auto simp: list_menu_def)
  next
    case (UpdateMenuItem i p)
    with h show ?thesis by (intro same update_menu_item_orders[of R d i p res]) simp
  next
    case (DeleteMenuItem i)
    with h show ?thesis by (intro same delete_menu_item_orders[of R d i res]) simp
  next
    case (CreateOrderReq p)
    with h have "create_order R (Some d) p = (res, db')" by simp
    from create_order_orders[OF this] show ?thesis by auto
  next
    case ListOrders
    with h show ?thesis by (intro same) (auto simp: list_orders_def)
  next
    case (UpdateOrderStatus i p)
    with h have "update_order_status R (Some d) i p = (res, db')" by simp
    from update_order_status_orders[OF this] show ?thesis
      by (auto simp: priced_part_status)
  next
    case Metrics
    with h show ?thesis by (intro same) (auto simp: metrics_def Let_def)
  qed
next
  assume "update_menu_item R (Some d) item_id patch = (res, db')"
  then show "\<exists>d'. db' = Some d' \<and> order d' = order d"
    by (rule update_menu_item_orders)
next
  assume "update_order_status R (Some d) order_id patch = (res, db')"
  then show "\<exists>d'. db' = Some d' \<and> menuitem d' = menuitem d \<and>
         (order d' = order d \<or>
          (\<exists>pre key ord post.
             ObjectId R (VStr order_id) = Some key \<and>
             order d = pre @ (key, ord) # post \<and>
             order d' = pre @ (key, ord\<lparr>status := get patch ''status''\<rparr>) # post))"
    by (rule update_order_status_orders)
qed

theorem orders_frozen_witness:
  "handle sample_runtime (Some sample_db) (UpdateMenuItem id_A [(''price'', VFloat 12)]) =
     (Inr [(''updated'', VBool True)], Some repriced_db) \<and>
   (\<exists>d' new. Some repriced_db = Some d' \<and>
      map priced_part (order d') = map priced_part (order sample_db) @ new) \<and>
   update_menu_item sample_runtime (Some sample_db) id_A [(''price'', VFloat 12)] =
     (Inr [(''updated'', VBool True)], Some repriced_db) \<and>
   (\<exists>d'. Some repriced_db = Some d' \<and> order d' = order sample_db) \<and>
   update_order_status sample_runtime (Some sample_db) id_order [(''status'', VStr ''ready'')] =
     (Inr [(''updated'', VBool True)],
      Some (sample_db\<lparr>order := [(id_order, sample_order\<lparr>status := VStr ''ready''\<rparr>)]\<rparr>)) \<and>
   (\<exists>d'. Some (sample_db\<lparr>order := [(id_order, sample_order\<lparr>status := VStr ''ready''\<rparr>)]\<rparr>) = Some d' \<and>
      menuitem d' = menuitem sample_db \<and>
      (order d' = order sample_db \<or>
       (\<exists>pre key ord post.
          ObjectId sample_runtime (VStr id_order) = Some key \<and>
          order sample_db = pre @ (key, ord) # post \<and>
          order d' =
            pre @ (key, ord\<lparr>status := get [(''status'', VStr ''ready'')] ''status''\<rparr>) # post)))"
proof -
  have h: "handle sample_runtime (Some sample_db) (UpdateMenuItem id_A [(''price'', VFloat 12)]) =
     (Inr [(''updated'', VBool True)], Some repriced_db)"
    by (simp add: run_reprice)
  from orders_frozen[where R = sample_runtime and d = sample_db
      and r = "UpdateMenuItem id_A [(''price'', VFloat 12)]"
      and res = "Inr [(''updated'', VBool True)]" and db' = "Some repriced_db"] h
  have 1: "\<exists>d' new. Some repriced_db = Some d' \<and>
      map priced_part (order d') = map priced_part (order sample_db) @ new"
    by blast
  from orders_frozen[where R = sample_runtime and d = sample_db
      and item_id = id_A and patch = "[(''price'', VFloat 12)]"
      and res = "Inr [(''updated'', VBool True)]" and db' = "Some repriced_db"] run_reprice
  have 2: "\<exists>d'. Some repriced_db = Some d' \<and> order d' = order sample_db"
    by blast
  from orders_frozen[where R = sample_runtime and d = sample_db
      and order_id = id_order and patch = "[(''status'', VStr ''ready'')]"
      and res = "Inr [(''updated'', VBool True)]"
      and db' = "Some (sample_db\<lparr>order := [(id_order, sample_order\<lparr>status := VStr ''ready''\<rparr>)]\<rparr>)"]
    run_ready
  have 3: "\<exists>d'. Some (sample_db\<lparr>order := [(id_order, sample_order\<lparr>status := VStr ''ready''\<rparr>)]\<rparr>) = Some d' \<and>
      menuitem d' = menuitem sample_db \<and>
      (order d' = order sample_db \<or>
       (\<exists>pre key ord post.
          ObjectId sample_runtime (VStr id_order) = Some key \<and>
          order sample_db = pre @ (key, ord) # post \<and>
          order d' =
            pre @ (key, ord\<lparr>status := get [(''status'', VStr ''ready'')] ''status''\<rparr>) # post))"
    by blast
  from h 1 run_reprice 2 run_ready 3 show ?thesis by blast
qed

end
